theory Spec2Isabelle
  imports Complex_Main "HOL-Library.Word" "HOL-Library.Signed_Division"
begin

section \<open>The image pipeline of fotomat: \<open>imager.Result\<close>\<close>

text \<open>
  The file embeds \<^verbatim>\<open>src/unnamed/part_000\<close> (package \<open>imager\<close>: the type \<open>Result\<close> with
  \<open>NewResult\<close>, \<open>applyColorProfile\<close>, \<open>Resize\<close>, \<open>Crop\<close>, \<open>Get\<close>, \<open>compress\<close> and \<open>Close\<close>) and the
  assertions of \<^verbatim>\<open>src/image-handler_test.go\<close>.

  Go's \<open>uint\<close> and \<open>int\<close> have the word size of the platform, 64 bits on the usual ones:
  both are \<open>64 word\<close> here, \<open>uint\<close> read by \<open>unat\<close> and compared by the unsigned order of
  words, \<open>int\<close> read by \<open>sint\<close>. The conversion \<open>int(u)\<close> keeps the bits, \<open>+\<close> and \<open>-\<close> wrap,
  and \<open>/\<close> on \<open>int\<close> truncates towards zero. \<open>float64\<close> is idealised as \<open>real\<close>.
\<close>

type_synonym uint = "64 word"
type_synonym gint = "64 word"
type_synonym blob = string

text \<open>Go's \<open>a / b\<close> on \<open>int\<close>: the quotient truncated towards zero.\<close>

definition int_quo :: "gint \<Rightarrow> gint \<Rightarrow> gint" where
  "int_quo a b = word_of_int (sint a sdiv sint b)"

subsection \<open>The parts of the repository that the pipeline uses\<close>

text \<open>
  Modelled from the spec: the type \<open>Orientation\<close>, whose file is not among the sources.
  The spec (section 3) lists its eight values.
\<close>

datatype Orientation =
  Normal | FlipHorizontal | Rotate180 | FlipVertical
  | Transpose | Rotate90 | Transverse | Rotate270

text \<open>
  Modelled from the spec: the method \<open>Orientation.Dimensions\<close> (section 4.3), which swaps
  width and height for the four orientations with a rotation by 90 or 270 degrees.
\<close>

fun Dimensions :: "Orientation \<Rightarrow> uint \<Rightarrow> uint \<Rightarrow> uint \<times> uint" where
  "Dimensions Transpose w h = (h, w)"
| "Dimensions Rotate90 w h = (h, w)"
| "Dimensions Transverse w h = (h, w)"
| "Dimensions Rotate270 w h = (h, w)"
| "Dimensions _ w h = (w, h)"

text \<open>
  \<open>Orientation.Crop\<close> maps the upright crop box to the box in pixel space. The spec does not
  give its eight cases, so the functions below take it as the parameter \<open>ocrop\<close>:
  \<open>ocrop orientation width height x y containerW containerH\<close>.
\<close>

type_synonym orientation_crop =
  "Orientation \<Rightarrow> uint \<Rightarrow> uint \<Rightarrow> gint \<Rightarrow> gint \<Rightarrow> uint \<Rightarrow> uint \<Rightarrow> uint \<times> uint \<times> gint \<times> gint"

text \<open>
  The fields of \<open>Imager\<close> that \<open>Result\<close> reads (the declaration of the struct is not among the
  sources). \<open>Orientation\<close> is a pointer in the source, read once by \<open>NewResult\<close>.
\<close>

record Imager =
  blob :: blob
  Width :: uint
  Height :: uint
  Orientation :: Orientation
  BlurFactor :: real
  Sharpen :: bool
  AutoContrast :: bool
  OutputFormat :: string
  JpegQuality :: uint

subsection \<open>The image engine\<close>

datatype ColorspaceType = COLORSPACE_SRGB | COLORSPACE_OTHER nat
datatype FilterType = FILTER_TRIANGLE | FILTER_LANCZOS
datatype AlphaChannelType = ALPHA_CHANNEL_BACKGROUND
datatype InterlaceType = INTERLACE_LINE

datatype error = MagickError string

text \<open>
  The methods of \<open>imagick.MagickWand\<close> that the pipeline calls, with their arguments. The
  option value of \<open>SetOption\<close> is the text \<open>"<width>x<height>"\<close>, kept as the two numbers;
  \<open>OrientationFix\<close> stands for the calls that \<open>Orientation.Fix(wand)\<close> makes.
\<close>

datatype call =
  NewMagickWand
  | SetOption string uint uint
  | ReadImageBlob blob
  | ResetIterator
  | ResetImagePage string
  | GetImageProfile string
  | ProfileImage string string
  | SetColorspace ColorspaceType
  | GetImageColorspace
  | TransformImageColorspace ColorspaceType
  | GetImageWidth
  | GetImageHeight
  | GaussianBlurImage real real
  | ResizeImage uint uint FilterType real
  | CropImage uint uint gint gint
  | UnsharpMaskImage real real real real
  | SetImageDepth uint
  | OrientationFix Orientation
  | NormalizeImage
  | StripImage
  | GetImageAlphaChannel
  | SetImageAlphaChannel AlphaChannelType
  | SetImageFormat string
  | SetImageCompressionQuality uint
  | SetInterlaceScheme InterlaceType
  | GetImageBlob
  | Destroy

text \<open>
  The state of one wand is the list of the calls made on it, oldest first. It is threaded
  through the functions below; the field \<open>wand\<close> of \<open>Result\<close>, a pointer that never changes
  while the \<open>Result\<close> is in use, is this threaded state.
\<close>

type_synonym trace = "call list"

text \<open>
  The engine is outside the repository. Its behaviour is a parameter: \<open>fails\<close> says for each
  call that returns an \<open>error\<close>, given the calls made before, whether it fails; the other
  fields are what the getters answer (each getter is called at most once on a wand).
\<close>

record engine =
  fails :: "trace \<Rightarrow> call \<Rightarrow> error option"
  icc_profile :: string
  image_colorspace :: ColorspaceType
  image_width :: uint
  image_height :: uint
  alpha_channel :: bool
  image_blob :: blob

definition invoke :: "engine \<Rightarrow> call \<Rightarrow> trace \<Rightarrow> error option \<times> trace" where
  "invoke e c t = (fails e t c, t @ [c])"

subsection \<open>\<open>Result\<close> and its methods\<close>

text \<open>
  The struct \<open>Result\<close>, without its pointer \<open>wand\<close> (the threaded \<open>trace\<close>); \<open>img\<close> is the
  \<open>Imager\<close> it points to, which the methods only read. The zero value that \<open>Close\<close> writes
  over the struct is \<open>None\<close> of \<open>Result option\<close>: no method is modelled on it.
\<close>

record Result =
  img :: Imager
  Width :: uint
  Height :: uint
  Orientation :: Orientation
  shrank :: bool

text \<open>\<open>Close\<close>: destroys the wand and writes the zero value over the struct.\<close>

definition Close :: "Result \<Rightarrow> trace \<Rightarrow> Result option \<times> trace" where
  "Close result t = (None, t @ [Destroy])"

text \<open>
  \<open>applyColorProfile\<close>; \<open>srgb\<close> is the constant \<open>sRGB_IEC61966_2_1_black_scaled\<close>, whose
  declaration is not among the sources.
\<close>

definition applyColorProfile :: "string \<Rightarrow> engine \<Rightarrow> trace \<Rightarrow> bool \<times> trace" where
  "applyColorProfile srgb e t =
    (let icc = icc_profile e; t = t @ [GetImageProfile ''icc''] in
     if icc = [] then (False, t)
     else if icc = srgb then (True, t)
     else (case invoke e (ProfileImage ''icc'' srgb) t of (err, t) \<Rightarrow> (err = None, t)))"

text \<open>
  \<open>NewResult\<close> (lines 21 to 87) returns the \<open>Result\<close> or the error, and the state of the wand
  it created. Each \<open>result.Close(); return nil, err\<close> of the source is a branch that ends
  with \<open>Close\<close>; the return of line 82, after the blur, has none. \<open>width0\<close> and \<open>height0\<close> are
  the arguments, \<open>width\<close> and \<open>height\<close> their values after line 29.
\<close>

definition NewResult ::
  "string \<Rightarrow> engine \<Rightarrow> Imager \<Rightarrow> uint \<Rightarrow> uint \<Rightarrow> (error + Result) \<times> trace" where
  "NewResult srgb e im width0 height0 =
    (let result = \<lparr>img = im, Width = 0, Height = 0,
                   Orientation = Imager.Orientation im, shrank = False\<rparr>;
         t = [NewMagickWand];
         (width, height) = Dimensions (Result.Orientation result) width0 height0
     in
     case (if width > 0 \<and> height > 0 then invoke e (SetOption ''jpeg:size'' width height) t
           else (None, t)) of
       (Some err, t) \<Rightarrow> (Inl err, snd (Close result t))
     | (None, t) \<Rightarrow>
     (case invoke e (ReadImageBlob (blob im)) t of
       (Some err, t) \<Rightarrow> (Inl err, snd (Close result t))
     | (None, t) \<Rightarrow>
     (case invoke e (ResetImagePage []) (t @ [ResetIterator]) of
       (Some err, t) \<Rightarrow> (Inl err, snd (Close result t))
     | (None, t) \<Rightarrow>
     (case applyColorProfile srgb e t of (applied, t) \<Rightarrow>
     (case (if applied then invoke e (SetColorspace COLORSPACE_SRGB) t
            else if image_colorspace e \<noteq> COLORSPACE_SRGB
            then invoke e (TransformImageColorspace COLORSPACE_SRGB) (t @ [GetImageColorspace])
            else (None, t @ [GetImageColorspace])) of
       (Some err, t) \<Rightarrow> (Inl err, snd (Close result t))
     | (None, t) \<Rightarrow>
     (let (w, h) = Dimensions (Result.Orientation result) (image_width e) (image_height e);
          t = t @ [GetImageWidth, GetImageHeight];
          result = result\<lparr>Width := w, Height := h\<rparr>;
          result = (if Result.Width result < Imager.Width im \<and> Result.Height result < Imager.Height im
                    then result\<lparr>shrank := True\<rparr> else result)
      in
      if BlurFactor im > 0 \<and> width > 0 \<and> Imager.Width im > width
         \<and> height > 0 \<and> Imager.Height im > height
      then (let radius = real (unat (Result.Width result)) / real (unat width) in
            case invoke e (GaussianBlurImage 0 (BlurFactor (img result) * radius)) t of
              (Some err, t) \<Rightarrow> (Inl err, t)
            | (None, t) \<Rightarrow> (Inr result, t))
      else (Inr result, t)))))))"

text \<open>
  \<open>Resize\<close> (lines 104 to 124) and \<open>Crop\<close> (lines 126 to 142) return the error, if any, the
  struct and the state of the wand.
\<close>

definition Resize ::
  "engine \<Rightarrow> uint \<Rightarrow> uint \<Rightarrow> Result \<Rightarrow> trace \<Rightarrow> error option \<times> Result \<times> trace" where
  "Resize e width height result t =
    (let (filter, shrinking) =
           (if width < Result.Width result - Result.Width result div 40
               \<and> height < Result.Height result - Result.Height result div 40
            then (FILTER_LANCZOS, True) else (FILTER_TRIANGLE, False));
         (ow, oh) = Dimensions (Result.Orientation result) width height
     in case invoke e (ResizeImage ow oh filter 1) t of
          (Some err, t) \<Rightarrow> (Some err, result, t)
        | (None, t) \<Rightarrow>
            (None, result\<lparr>Width := width, Height := height, shrank := shrinking\<rparr>, t))"

definition Crop ::
  "orientation_crop \<Rightarrow> engine \<Rightarrow> uint \<Rightarrow> uint \<Rightarrow> Result \<Rightarrow> trace
    \<Rightarrow> error option \<times> Result \<times> trace" where
  "Crop ocrop e width height result t =
    (let x = int_quo (Result.Width result - width + 1) 2;
         y = int_quo (Result.Height result - height + 1) 2;
         (ow, oh, ox, oy) =
           ocrop (Result.Orientation result) width height x y
             (Result.Width result) (Result.Height result)
     in case invoke e (CropImage ow oh ox oy) t of
          (Some err, t) \<Rightarrow> (Some err, result, t)
        | (None, t) \<Rightarrow> (None, result\<lparr>Width := width, Height := height\<rparr>, t))"

text \<open>\<open>compress\<close> (lines 192 to 207).\<close>

definition compress ::
  "engine \<Rightarrow> string \<Rightarrow> uint \<Rightarrow> InterlaceType \<Rightarrow> trace \<Rightarrow> (error + blob) \<times> trace" where
  "compress e format quality interlace t =
    (case invoke e (SetImageFormat format) t of
       (Some err, t) \<Rightarrow> (Inl err, t)
     | (None, t) \<Rightarrow>
     (case invoke e (SetImageCompressionQuality quality) t of
       (Some err, t) \<Rightarrow> (Inl err, t)
     | (None, t) \<Rightarrow>
     (case invoke e (SetInterlaceScheme interlace) t of
       (Some err, t) \<Rightarrow> (Inl err, t)
     | (None, t) \<Rightarrow> (Inr (image_blob e), t @ [GetImageBlob]))))"

text \<open>
  \<open>Get\<close> (lines 144 to 190) returns the bytes or the error, the struct as the call leaves
  it (\<open>None\<close> once \<open>Close\<close> has zeroed it, on line 171) and the state of the wand.
\<close>

definition Get ::
  "engine \<Rightarrow> Result \<Rightarrow> trace \<Rightarrow> (error + blob) \<times> Result option \<times> trace" where
  "Get e result t =
    (case (if shrank result \<and> Sharpen (img result)
           then invoke e (UnsharpMaskImage 0 0.8 0.6 0.05) t else (None, t)) of
       (Some err, t) \<Rightarrow> (Inl err, Some result, t)
     | (None, t) \<Rightarrow>
     (case invoke e (SetImageDepth 8) t of
       (Some err, t) \<Rightarrow> (Inl err, Some result, t)
     | (None, t) \<Rightarrow>
     (case invoke e (OrientationFix (Result.Orientation result)) t of
       (Some err, t) \<Rightarrow> (Inl err, Some result, t)
     | (None, t) \<Rightarrow>
     (case (if AutoContrast (img result) then invoke e NormalizeImage t else (None, t)) of
       (Some err, t) \<Rightarrow> (Inl err, Some result, t)
     | (None, t) \<Rightarrow>
     (case invoke e StripImage t of
       (Some err, t) \<Rightarrow> (case Close result t of (zero, t) \<Rightarrow> (Inl err, zero, t))
     | (None, t) \<Rightarrow>
     (let hasAlpha = alpha_channel e; t = t @ [GetImageAlphaChannel] in
      case (if hasAlpha then invoke e (SetImageAlphaChannel ALPHA_CHANNEL_BACKGROUND) t
            else (None, t)) of
        (Some err, t) \<Rightarrow> (Inl err, Some result, t)
      | (None, t) \<Rightarrow>
      (let quality = (if OutputFormat (img result) = ''JPEG''
                      then JpegQuality (img result) else 95)
       in case compress e (OutputFormat (img result)) quality INTERLACE_LINE t of
            (res, t) \<Rightarrow> (res, Some result, t))))))))"

subsection \<open>The body of \<open>NewResult\<close> from line 56 and from line 70\<close>

text \<open>
  The two definitions below are the text of \<open>NewResult\<close> from its colour normalisation
  (line 56) and from the reading of the dimensions (line 70) to the end, with the local
  variables as parameters. Unfolding them gives \<open>NewResult\<close> back (\<open>NewResult_unfold\<close>); the
  proofs go through the function part by part.
\<close>

definition NewResult_after_color ::
  "engine \<Rightarrow> Imager \<Rightarrow> Result \<Rightarrow> uint \<Rightarrow> uint \<Rightarrow> trace \<Rightarrow> (error + Result) \<times> trace" where
  "NewResult_after_color e im result width height t =
     (let (w, h) = Dimensions (Result.Orientation result) (image_width e) (image_height e);
          t = t @ [GetImageWidth, GetImageHeight];
          result = result\<lparr>Width := w, Height := h\<rparr>;
          result = (if Result.Width result < Imager.Width im \<and> Result.Height result < Imager.Height im
                    then result\<lparr>shrank := True\<rparr> else result)
      in
      if BlurFactor im > 0 \<and> width > 0 \<and> Imager.Width im > width
         \<and> height > 0 \<and> Imager.Height im > height
      then (let radius = real (unat (Result.Width result)) / real (unat width) in
            case invoke e (GaussianBlurImage 0 (BlurFactor (img result) * radius)) t of
              (Some err, t) \<Rightarrow> (Inl err, t)
            | (None, t) \<Rightarrow> (Inr result, t))
      else (Inr result, t))"

definition NewResult_after_decode ::
  "string \<Rightarrow> engine \<Rightarrow> Imager \<Rightarrow> Result \<Rightarrow> uint \<Rightarrow> uint \<Rightarrow> trace
    \<Rightarrow> (error + Result) \<times> trace" where
  "NewResult_after_decode srgb e im result width height t =
     (case applyColorProfile srgb e t of (applied, t) \<Rightarrow>
     (case (if applied then invoke e (SetColorspace COLORSPACE_SRGB) t
            else if image_colorspace e \<noteq> COLORSPACE_SRGB
            then invoke e (TransformImageColorspace COLORSPACE_SRGB) (t @ [GetImageColorspace])
            else (None, t @ [GetImageColorspace])) of
       (Some err, t) \<Rightarrow> (Inl err, snd (Close result t))
     | (None, t) \<Rightarrow> NewResult_after_color e im result width height t))"

text \<open>
  Names for what lines 70 to 81 compute: the \<open>Result\<close> with the decoded dimensions and the
  flag \<open>shrank\<close>, the condition of the blur, and the call of the blur.
\<close>

definition measured :: "engine \<Rightarrow> Imager \<Rightarrow> Result \<Rightarrow> Result" where
  "measured e im result =
     (if fst (Dimensions (Result.Orientation result) (image_width e) (image_height e))
           < Imager.Width im
         \<and> snd (Dimensions (Result.Orientation result) (image_width e) (image_height e))
           < Imager.Height im
      then result\<lparr>
             Width := fst (Dimensions (Result.Orientation result) (image_width e) (image_height e)),
             Height := snd (Dimensions (Result.Orientation result) (image_width e) (image_height e)),
             shrank := True\<rparr>
      else result\<lparr>
             Width := fst (Dimensions (Result.Orientation result) (image_width e) (image_height e)),
             Height := snd (Dimensions (Result.Orientation result) (image_width e) (image_height e))\<rparr>)"

definition blur_gate :: "Imager \<Rightarrow> uint \<Rightarrow> uint \<Rightarrow> bool" where
  "blur_gate im width height \<longleftrightarrow>
     BlurFactor im > 0 \<and> width > 0 \<and> Imager.Width im > width
     \<and> height > 0 \<and> Imager.Height im > height"

definition blur_call :: "engine \<Rightarrow> Imager \<Rightarrow> Result \<Rightarrow> uint \<Rightarrow> call" where
  "blur_call e im result width =
     GaussianBlurImage 0 (BlurFactor (img result) *
       (real (unat (Result.Width (measured e im result))) / real (unat width)))"

subsection \<open>Sequences of operations\<close>

text \<open>The test of line 108 of \<open>Resize\<close>, which selects the Lanczos filter, under a name.\<close>

definition selects_lanczos :: "Result \<Rightarrow> uint \<Rightarrow> uint \<Rightarrow> bool" where
  "selects_lanczos result width height \<longleftrightarrow>
     width < Result.Width result - Result.Width result div 40
     \<and> height < Result.Height result - Result.Height result div 40"

text \<open>
  Modelled from the spec: the loop of the request handler (its file is not among the
  sources) that applies the operations of a plan to one \<open>Result\<close>, in order, and stops at
  the first failure (spec, section 4.2, step 7). An operation is a call of \<open>Resize\<close> or of
  \<open>Crop\<close> with its arguments.
\<close>

datatype operation = DoResize uint uint | DoCrop uint uint

text \<open>
  Modelled from the spec: one step of that loop, the call of the method that the operation
  names.
\<close>

fun apply_operation ::
  "orientation_crop \<Rightarrow> engine \<Rightarrow> operation \<Rightarrow> Result \<Rightarrow> trace
    \<Rightarrow> error option \<times> Result \<times> trace" where
  "apply_operation ocrop e (DoResize w h) result t = Resize e w h result t"
| "apply_operation ocrop e (DoCrop w h) result t = Crop ocrop e w h result t"

text \<open>
  Modelled from the spec: the loop itself; the first error ends it, with the struct and
  the wand as the failed call left them.
\<close>

fun run ::
  "orientation_crop \<Rightarrow> engine \<Rightarrow> operation list \<Rightarrow> Result \<Rightarrow> trace
    \<Rightarrow> error option \<times> Result \<times> trace" where
  "run ocrop e [] result t = (None, result, t)"
| "run ocrop e (op # ops) result t =
     (case apply_operation ocrop e op result t of
        (Some err, result', t') \<Rightarrow> (Some err, result', t')
      | (None, result', t') \<Rightarrow> run ocrop e ops result' t')"

text \<open>
  Every \<open>Resize\<close> that the run completes selects the Lanczos filter, in the state in which
  it is called.
\<close>

fun resizes_all_shrink ::
  "orientation_crop \<Rightarrow> engine \<Rightarrow> operation list \<Rightarrow> Result \<Rightarrow> trace \<Rightarrow> bool" where
  "resizes_all_shrink ocrop e [] result t = True"
| "resizes_all_shrink ocrop e (op # ops) result t =
     (case apply_operation ocrop e op result t of
        (Some err, result', t') \<Rightarrow> True
      | (None, result', t') \<Rightarrow>
          (case op of DoResize w h \<Rightarrow> selects_lanczos result w h | DoCrop w h \<Rightarrow> True)
          \<and> resizes_all_shrink ocrop e ops result' t')"

subsection \<open>Reading a trace\<close>

fun is_blur :: "call \<Rightarrow> bool" where
  "is_blur (GaussianBlurImage r s) = True"
| "is_blur _ = False"

fun is_color_operation :: "call \<Rightarrow> bool" where
  "is_color_operation (ProfileImage n p) = True"
| "is_color_operation (SetColorspace c) = True"
| "is_color_operation (TransformImageColorspace c) = True"
| "is_color_operation _ = False"

text \<open>
  The calls of lines 25 to 51 of \<open>NewResult\<close> when none of them fails: the state of the wand
  when \<open>applyColorProfile\<close> is called. \<open>width\<close> and \<open>height\<close> are the hint after line 29.
\<close>

definition calls_before_color :: "Imager \<Rightarrow> uint \<Rightarrow> uint \<Rightarrow> trace" where
  "calls_before_color im width height =
     [NewMagickWand]
     @ (if width > 0 \<and> height > 0 then [SetOption ''jpeg:size'' width height] else [])
     @ [ReadImageBlob (blob im), ResetIterator, ResetImagePage []]"

definition CropImage_of :: "uint \<times> uint \<times> gint \<times> gint \<Rightarrow> call" where
  "CropImage_of box = (case box of (ow, oh, ox, oy) \<Rightarrow> CropImage ow oh ox oy)"

section \<open>The plan parser\<close>

text \<open>
  Modelled from the spec: the parser of the transformation plan, whose file (the request
  handler) is not among the sources; only its test \<^verbatim>\<open>src/image-handler_test.go\<close> is. The
  model follows sections 4.1 and 6 of the spec: the suffix is split on \<open>=\<close>, each non-empty
  segment is an operation followed by \<open>DIGITS x DIGITS\<close>, each dimension lies in the closed
  range from 16 to 2048, at most one operation of the scale family is allowed, and a plan
  without operations is rejected; every rejection is \<open>BadRequest\<close>. The spelling of the
  preview operation follows the test: \<open>TestParameterValidation\<close> requires the preview flag
  \<open>p\<close> to stand before the operation (\<open>sp16x16\<close> is a bad request) and \<open>TestSuccess\<close>
  requests \<open>ps100x100\<close>.
\<close>

text \<open>
  Modelled from the spec: the failures of its section 7 and the operations of a plan
  (section 3), each with its width and height.
\<close>

datatype failure = NotFound | UnsupportedMedia | TooLarge | BadRequest | Internal

datatype Operation = OpScale nat nat | OpCrop nat nat | OpPreviewScale nat nat

fun op_width :: "Operation \<Rightarrow> nat" where
  "op_width (OpScale w h) = w"
| "op_width (OpCrop w h) = w"
| "op_width (OpPreviewScale w h) = w"

fun op_height :: "Operation \<Rightarrow> nat" where
  "op_height (OpScale w h) = h"
| "op_height (OpCrop w h) = h"
| "op_height (OpPreviewScale w h) = h"

text \<open>Modelled from the spec: the scale family is scale and preview-scale (section 4.1).\<close>

fun is_scale_family :: "Operation \<Rightarrow> bool" where
  "is_scale_family (OpCrop w h) = False"
| "is_scale_family _ = True"

text \<open>
  Modelled from the spec: \<open>DIGITS\<close>, a non-empty run of decimal digits, read as a number
  (section 6).
\<close>

definition is_digit :: "char \<Rightarrow> bool" where
  "is_digit c \<longleftrightarrow> c \<in> set ''0123456789''"

definition digit_value :: "char \<Rightarrow> nat" where
  "digit_value c = of_char c - 48"

definition parse_decimal :: "string \<Rightarrow> nat option" where
  "parse_decimal s =
     (if s \<noteq> [] \<and> list_all is_digit s
      then Some (foldl (\<lambda>n c. 10 * n + digit_value c) 0 s) else None)"

text \<open>Modelled from the spec: \<open>DIGITS "x" DIGITS\<close>, the width and the height (section 6).\<close>

definition parse_dimensions :: "string \<Rightarrow> (nat \<times> nat) option" where
  "parse_dimensions s =
     (case dropWhile is_digit s of
        [] \<Rightarrow> None
      | c # hs \<Rightarrow>
          if c = CHR ''x'' then
            (case (parse_decimal (takeWhile is_digit s), parse_decimal hs) of
               (Some w, Some h) \<Rightarrow> Some (w, h)
             | _ \<Rightarrow> None)
          else None)"

text \<open>
  Modelled from the spec: the operation and the two numbers of a segment, before the check
  of the range. The operations are \<open>s\<close>, \<open>c\<close> and, with the preview flag as the prefix that
  the test file requires, \<open>ps\<close>; any other segment is not an operation.
\<close>

definition lex_segment :: "string \<Rightarrow> Operation option" where
  "lex_segment s =
     (case s of
        [] \<Rightarrow> None
      | c # r \<Rightarrow>
          if c = CHR ''p'' then
            (case r of
               [] \<Rightarrow> None
             | c' # r' \<Rightarrow>
                 if c' = CHR ''s''
                 then map_option (\<lambda>(w, h). OpPreviewScale w h) (parse_dimensions r')
                 else None)
          else if c = CHR ''s'' then map_option (\<lambda>(w, h). OpScale w h) (parse_dimensions r)
          else if c = CHR ''c'' then map_option (\<lambda>(w, h). OpCrop w h) (parse_dimensions r)
          else None)"

text \<open>Modelled from the spec: the closed range of a dimension (section 4.1).\<close>

definition in_range :: "nat \<Rightarrow> bool" where
  "in_range d \<longleftrightarrow> 16 \<le> d \<and> d \<le> 2048"

text \<open>
  Modelled from the spec: one segment; a segment that is not an operation with two
  dimensions in range is a bad request.
\<close>

definition parse_segment :: "string \<Rightarrow> failure + Operation" where
  "parse_segment s =
     (case lex_segment s of
        None \<Rightarrow> Inl BadRequest
      | Some op \<Rightarrow>
          if in_range (op_width op) \<and> in_range (op_height op) then Inr op
          else Inl BadRequest)"

text \<open>Modelled from the spec: the segments in order; the first failure is the answer.\<close>

fun parse_segments :: "string list \<Rightarrow> failure + Operation list" where
  "parse_segments [] = Inr []"
| "parse_segments (s # ss) =
     (case parse_segment s of
        Inl f \<Rightarrow> Inl f
      | Inr op \<Rightarrow> (case parse_segments ss of Inl f \<Rightarrow> Inl f | Inr ops \<Rightarrow> Inr (op # ops)))"

text \<open>Modelled from the spec: the suffix split on \<open>=\<close>, and its non-empty segments.\<close>

fun split_on :: "char \<Rightarrow> string \<Rightarrow> string list" where
  "split_on c [] = [[]]"
| "split_on c (x # xs) =
     (if x = c then [] # split_on c xs
      else (case split_on c xs of [] \<Rightarrow> [[x]] | s # ss \<Rightarrow> (x # s) # ss))"

definition segments :: "string \<Rightarrow> string list" where
  "segments suffix = filter (\<lambda>s. s \<noteq> []) (split_on CHR ''='' suffix)"

text \<open>
  Modelled from the spec: the parser. A plan needs at least one operation and may hold at
  most one of the scale family.
\<close>

definition parse_plan :: "string \<Rightarrow> failure + Operation list" where
  "parse_plan suffix =
     (case parse_segments (segments suffix) of
        Inl f \<Rightarrow> Inl f
      | Inr ops \<Rightarrow>
          if ops = [] then Inl BadRequest
          else if length (filter is_scale_family ops) > 1 then Inl BadRequest
          else Inr ops)"

subsection \<open>The requests of the test file\<close>

text \<open>
  Modelled from the spec: a request of the test is a file name followed by the plan; the
  plan is the suffix that starts at the first \<open>=\<close>.
\<close>

definition plan_suffix :: "string \<Rightarrow> string" where
  "plan_suffix request = dropWhile (\<lambda>c. c \<noteq> CHR ''='') request"

text \<open>The requests for which \<open>TestParameterValidation\<close> asserts \<open>http.StatusBadRequest\<close>.\<close>

definition TestParameterValidation :: "string list" where
  "TestParameterValidation =
     [''watermelon.jpg'', ''watermelon.jpg=z16x16'', ''watermelon.jpg=sp16x16'',
      ''watermelon.jpg=s0x10'', ''watermelon.jpg=s10x0'',
      ''watermelon.jpg=c0x10'', ''watermelon.jpg=c10x0'',
      ''watermelon.jpg=s2049x16'', ''watermelon.jpg=s16x2049'',
      ''watermelon.jpg=c2049x16'', ''watermelon.jpg=c16x2049'',
      ''watermelon.jpg=s16x16=s16x16'']"

text \<open>
  The requests that \<open>TestSuccess\<close> expects to be served and those for which
  \<open>TestResponseErrors\<close> asserts a status other than \<open>http.StatusBadRequest\<close>.
\<close>

definition TestSuccess :: "string list" where
  "TestSuccess =
     [''2px.png=s2048x2048'', ''watermelon.jpg=c200x100'', ''watermelon.jpg=ps100x100'']"

definition TestResponseErrors :: "string list" where
  "TestResponseErrors =
     [''notfound.txt=s16x16'', ''notimage.txt=s16x16'', ''bad.jpg=s16x16'',
      ''1px.png=s16x16'', ''34000px.png=s16x16'']"

section \<open>Example inputs\<close>

text \<open>
  An engine that never fails and decodes a 1000 by 750 image without a colour profile, in
  sRGB; the same engine with a failing blur, a failing resize and a failing crop.
\<close>

definition plain_engine :: engine where
  "plain_engine =
     \<lparr>fails = (\<lambda>t c. None), icc_profile = [], image_colorspace = COLORSPACE_SRGB,
      image_width = 1000, image_height = 750, alpha_channel = False, image_blob = ''jpeg''\<rparr>"

definition blur_failing_engine :: engine where
  "blur_failing_engine =
     plain_engine\<lparr>fails := (\<lambda>t c. if is_blur c then Some (MagickError ''blur'') else None)\<rparr>"

text \<open>A 4000 by 3000 photograph, upright, to be blurred and sharpened.\<close>

definition photo :: Imager where
  "photo =
     \<lparr>blob = ''photo'', Width = 4000, Height = 3000, Orientation = Normal, BlurFactor = 1,
      Sharpen = True, AutoContrast = False, OutputFormat = ''JPEG'', JpegQuality = 85\<rparr>"

text \<open>The \<open>Result\<close> that \<open>NewResult\<close> returns for it when the decoder scales it to a quarter.\<close>

definition decoded_photo :: Result where
  "decoded_photo =
     \<lparr>img = photo, Width = 1000, Height = 750, Orientation = Normal, shrank = True\<rparr>"

text \<open>A \<open>Result\<close> of 100 by 50 pixels.\<close>

definition banner :: Result where
  "banner = \<lparr>img = photo, Width = 100, Height = 50, Orientation = Normal, shrank = False\<rparr>"

text \<open>\<open>Orientation.Crop\<close> for an upright image: the box is the upright box.\<close>

definition upright_crop :: orientation_crop where
  "upright_crop orientation w h x y cw ch = (w, h, x, y)"

text \<open>The plain engine for an image that carries a colour profile other than the reference.\<close>

definition profiled_engine :: engine where
  "profiled_engine =
     plain_engine\<lparr>icc_profile := ''AdobeRGB'', image_colorspace := COLORSPACE_OTHER 1\<rparr>"

text \<open>The plain engine with a failing resize.\<close>

definition resize_failing_engine :: engine where
  "resize_failing_engine =
     plain_engine\<lparr>fails := (\<lambda>t c. case c of ResizeImage w h f b \<Rightarrow> Some (MagickError ''resize'')
                                      | _ \<Rightarrow> None)\<rparr>"

text \<open>The engine of the profiled image when the application of the reference profile fails.\<close>

definition profile_failing_engine :: engine where
  "profile_failing_engine =
     profiled_engine\<lparr>fails := (\<lambda>t c. case c of ProfileImage n p \<Rightarrow> Some (MagickError ''profile'')
                                      | _ \<Rightarrow> None)\<rparr>"

lemmas example_defs =
  plain_engine_def blur_failing_engine_def profiled_engine_def resize_failing_engine_def
  profile_failing_engine_def photo_def decoded_photo_def banner_def upright_crop_def

section \<open>Machine arithmetic\<close>

lemma unat_sub_div40: "unat (W - W div 40) = unat W - unat W div 40" for W :: "64 word"
proof -
  have "W div 40 \<le> W" by (simp add: word_le_nat_alt unat_div)
  then show ?thesis by (simp add: unat_sub unat_div)
qed

text \<open>
  The test of \<open>Resize\<close> in exact arithmetic: \<open>w\<close> is below \<open>W - W / 40\<close> if and only if
  \<open>w\<close> is less than 97.5 percent of \<open>W\<close>.
\<close>

lemma lanczos_iff: "(w < W - W div 40) \<longleftrightarrow> 40 * unat w < 39 * unat W" for W w :: "64 word"
  unfolding word_less_nat_alt unat_sub_div40 by arith

lemma sint_of_int_64:
  "- (2 ^ 63) \<le> k \<Longrightarrow> k < 2 ^ 63 \<Longrightarrow> sint (word_of_int k :: 64 word) = k"
  by (simp add: int_word_sint)

lemma margin_word: "(W - w + 1 :: 64 word) = word_of_int (int (unat W) - int (unat w) + 1)"
  by simp

lemma int_unat_bound: "unat W < 2 ^ 62 \<Longrightarrow> int (unat W) < 2 ^ 62" for W :: "64 word"
  by (metis of_nat_less_iff of_nat_numeral of_nat_power)

lemma range_int:
  "0 \<le> a \<Longrightarrow> a < 2 ^ 62 \<Longrightarrow> 0 \<le> b \<Longrightarrow> b < 2 ^ 62
    \<Longrightarrow> - (2 ^ 63) \<le> a - b + 1 \<and> a - b + 1 < 2 ^ 63" for a b :: int
  by simp

lemma sdiv_two_bounds:
  "- (2 ^ 63) \<le> k \<Longrightarrow> k < 2 ^ 63 \<Longrightarrow> - (2 ^ 63) \<le> k sdiv 2 \<and> k sdiv 2 < 2 ^ 63" for k :: int
  by (auto simp add: signed_divide_int_def sgn_if)

text \<open>Below \<open>2 ^ 62\<close> the offset of \<open>Crop\<close> does not wrap.\<close>

lemma crop_offset_sint:
  assumes "unat W < 2 ^ 62" "unat w < 2 ^ 62"
  shows "sint (int_quo (W - w + 1) 2) = (int (unat W) - int (unat w) + 1) sdiv 2"
proof -
  let ?k = "int (unat W) - int (unat w) + 1"
  have "int (unat W) < 2 ^ 62" "int (unat w) < 2 ^ 62" "0 \<le> int (unat W)" "0 \<le> int (unat w)"
    using assms by (simp_all only: int_unat_bound of_nat_0_le_iff)
  then have k: "- (2 ^ 63) \<le> ?k" "?k < 2 ^ 63"
    using range_int [of "int (unat W)" "int (unat w)"] by blast+
  have "sint (W - w + 1) = ?k"
    unfolding margin_word using k by (rule sint_of_int_64)
  moreover have "sint (2 :: 64 word) = 2" by simp
  ultimately have "sint (int_quo (W - w + 1) 2) = sint (word_of_int (?k sdiv 2) :: 64 word)"
    by (simp only: int_quo_def)
  also have "\<dots> = ?k sdiv 2"
    using sdiv_two_bounds [OF k] by (intro sint_of_int_64) auto
  finally show ?thesis .
qed

lemma sdiv2_of_nat: "int n sdiv 2 = int (n div 2)"
  by (cases "n = 0") (simp_all add: signed_divide_int_def sgn_if)

lemma sdiv2_of_neg_nat: "(- int n) sdiv 2 = - int (n div 2)"
  by (cases "n = 0") (simp_all add: signed_divide_int_def sgn_if)

lemma sdiv2_inside:
  "b \<le> a \<Longrightarrow> (int a - int b + 1) sdiv 2 = int ((a - b + 1) div 2)" for a b :: nat
proof -
  assume "b \<le> a"
  then have "int a - int b + 1 = int (a - b + 1)" by simp
  then show ?thesis by (simp only: sdiv2_of_nat)
qed

lemma sdiv2_outside:
  "a < b \<Longrightarrow> (int a - int b + 1) sdiv 2 = - int ((b - a - 1) div 2)" for a b :: nat
proof -
  assume "a < b"
  then have "int a - int b + 1 = - int (b - a - 1)" by simp
  then show ?thesis by (simp only: sdiv2_of_neg_nat)
qed

lemma crop_offset_inside:
  assumes "unat W < 2 ^ 62" "unat w \<le> unat W"
  shows "sint (int_quo (W - w + 1) 2) = int ((unat W - unat w + 1) div 2)"
proof -
  have w: "unat w < 2 ^ 62" using assms by simp
  have "sint (int_quo (W - w + 1) 2) = (int (unat W) - int (unat w) + 1) sdiv 2"
    by (rule crop_offset_sint [OF assms(1) w])
  also have "\<dots> = int ((unat W - unat w + 1) div 2)"
    by (rule sdiv2_inside [OF assms(2)])
  finally show ?thesis .
qed

lemma crop_offset_outside:
  assumes "unat W < 2 ^ 62" "unat w < 2 ^ 62" "unat W < unat w"
  shows "sint (int_quo (W - w + 1) 2) = - int ((unat w - unat W - 1) div 2)"
proof -
  have "sint (int_quo (W - w + 1) 2) = (int (unat W) - int (unat w) + 1) sdiv 2"
    by (rule crop_offset_sint [OF assms(1,2)])
  also have "\<dots> = - int ((unat w - unat W - 1) div 2)"
    by (rule sdiv2_outside [OF assms(3)])
  finally show ?thesis .
qed

lemma half_margin:
  "m - (m + 1) div 2 = (if even m then (m + 1) div 2 else (m + 1) div 2 - 1)" for m :: nat
  by (auto elim!: evenE oddE)

section \<open>\<open>Resize\<close> and \<open>Crop\<close>\<close>

text \<open>Both methods make one call of the engine and update the struct only if it succeeds.\<close>

lemma Resize_eq:
  "Resize e w h r t =
    (let c = ResizeImage (fst (Dimensions (Result.Orientation r) w h))
               (snd (Dimensions (Result.Orientation r) w h))
               (if selects_lanczos r w h then FILTER_LANCZOS else FILTER_TRIANGLE) 1
     in (fails e t c,
         if fails e t c = None
         then r\<lparr>Width := w, Height := h, shrank := selects_lanczos r w h\<rparr> else r,
         t @ [c]))"
  by (auto simp add: Resize_def selects_lanczos_def invoke_def split: prod.splits option.splits)

lemma Crop_eq:
  "Crop ocrop e w h r t =
    (let c = CropImage_of (ocrop (Result.Orientation r) w h
               (int_quo (Result.Width r - w + 1) 2) (int_quo (Result.Height r - h + 1) 2)
               (Result.Width r) (Result.Height r))
     in (fails e t c,
         if fails e t c = None then r\<lparr>Width := w, Height := h\<rparr> else r,
         t @ [c]))"
  by (auto simp add: Crop_def CropImage_of_def invoke_def Let_def split: prod.splits option.splits)

lemma Crop_trace:
  "snd (snd (Crop ocrop e w h r t)) =
      t @ [CropImage_of (ocrop (Result.Orientation r) w h
             (int_quo (Result.Width r - w + 1) 2) (int_quo (Result.Height r - h + 1) 2)
             (Result.Width r) (Result.Height r))]"
  by (simp add: Crop_eq Let_def)

lemma Crop_error:
  "fst (Crop ocrop e w h r t) =
      fails e t (CropImage_of (ocrop (Result.Orientation r) w h
             (int_quo (Result.Width r - w + 1) 2) (int_quo (Result.Height r - h + 1) 2)
             (Result.Width r) (Result.Height r)))"
  by (simp add: Crop_eq Let_def)

lemma apply_operation_shrank:
  "apply_operation ocrop e op r t = (None, r', t') \<Longrightarrow>
   shrank r' = (case op of DoResize w h \<Rightarrow> selects_lanczos r w h | DoCrop w h \<Rightarrow> shrank r)"
  by (cases op) (auto simp add: Resize_eq Crop_eq Let_def split: if_splits)

lemma apply_operation_failed:
  "apply_operation ocrop e op r t = (Some err, r', t') \<Longrightarrow> r' = r"
  by (cases op) (auto simp add: Resize_eq Crop_eq Let_def split: if_splits)

text \<open>
  Claim C4, as the spec states it, fails when the engine fails: the filter is chosen
  before the call, the flag is written only after its success. Here the Lanczos filter is
  chosen and passed to an engine whose resize fails; \<open>shrank\<close> stays false.
\<close>

theorem Lanczos_chosen_engine_fails:
  "Resize resize_failing_engine 50 25 banner [] =
     (Some (MagickError ''resize''), banner, [ResizeImage 50 25 FILTER_LANCZOS 1])
   \<and> \<not> shrank banner"
  by (simp add: Resize_eq Let_def selects_lanczos_def example_defs)

text \<open>
  Claim C4, amended. \<open>Resize(w,h)\<close> on working dimensions \<open>(W,H)\<close> passes the Lanczos filter to
  the engine if and only if \<open>w < W - W/40\<close> and \<open>h < H - H/40\<close>, and the triangle filter
  otherwise. In exact arithmetic the test says that both axes shrink by more than 2.5
  percent (\<open>40 w < 39 W\<close> and \<open>40 h < 39 H\<close>): a shrink by 2.5 percent or less in either axis,
  and any enlargement, gets the triangle filter. \<open>Resize\<close> returns the error of that call of
  the engine. When the call succeeds, \<open>shrank\<close> becomes exactly whether Lanczos was chosen;
  when it fails, \<open>shrank\<close> keeps its value, whatever the filter.
\<close>

theorem Resize_filter_selection:
  "snd (snd (Resize e w h r t)) =
     t @ [ResizeImage (fst (Dimensions (Result.Orientation r) w h))
            (snd (Dimensions (Result.Orientation r) w h))
            (if w < Result.Width r - Result.Width r div 40
                \<and> h < Result.Height r - Result.Height r div 40
             then FILTER_LANCZOS else FILTER_TRIANGLE) 1]
   \<and> ((w < Result.Width r - Result.Width r div 40 \<and> h < Result.Height r - Result.Height r div 40)
        = (40 * unat w < 39 * unat (Result.Width r) \<and> 40 * unat h < 39 * unat (Result.Height r)))
   \<and> fst (Resize e w h r t) =
       fails e t (ResizeImage (fst (Dimensions (Result.Orientation r) w h))
            (snd (Dimensions (Result.Orientation r) w h))
            (if w < Result.Width r - Result.Width r div 40
                \<and> h < Result.Height r - Result.Height r div 40
             then FILTER_LANCZOS else FILTER_TRIANGLE) 1)
   \<and> shrank (fst (snd (Resize e w h r t))) =
       (if fails e t (ResizeImage (fst (Dimensions (Result.Orientation r) w h))
            (snd (Dimensions (Result.Orientation r) w h))
            (if w < Result.Width r - Result.Width r div 40
                \<and> h < Result.Height r - Result.Height r div 40
             then FILTER_LANCZOS else FILTER_TRIANGLE) 1) = None
        then w < Result.Width r - Result.Width r div 40
             \<and> h < Result.Height r - Result.Height r div 40
        else shrank r)"
proof -
  have call: "snd (snd (Resize e w h r t)) =
     t @ [ResizeImage (fst (Dimensions (Result.Orientation r) w h))
            (snd (Dimensions (Result.Orientation r) w h))
            (if w < Result.Width r - Result.Width r div 40
                \<and> h < Result.Height r - Result.Height r div 40
             then FILTER_LANCZOS else FILTER_TRIANGLE) 1]"
    by (simp add: Resize_eq Let_def selects_lanczos_def)
  have exact: "(w < Result.Width r - Result.Width r div 40
        \<and> h < Result.Height r - Result.Height r div 40)
      = (40 * unat w < 39 * unat (Result.Width r) \<and> 40 * unat h < 39 * unat (Result.Height r))"
    by (simp only: lanczos_iff)
  have err: "fst (Resize e w h r t) =
       fails e t (ResizeImage (fst (Dimensions (Result.Orientation r) w h))
            (snd (Dimensions (Result.Orientation r) w h))
            (if w < Result.Width r - Result.Width r div 40
                \<and> h < Result.Height r - Result.Height r div 40
             then FILTER_LANCZOS else FILTER_TRIANGLE) 1)"
    by (simp add: Resize_eq Let_def selects_lanczos_def)
  have flag: "shrank (fst (snd (Resize e w h r t))) =
       (if fails e t (ResizeImage (fst (Dimensions (Result.Orientation r) w h))
            (snd (Dimensions (Result.Orientation r) w h))
            (if w < Result.Width r - Result.Width r div 40
                \<and> h < Result.Height r - Result.Height r div 40
             then FILTER_LANCZOS else FILTER_TRIANGLE) 1) = None
        then w < Result.Width r - Result.Width r div 40
             \<and> h < Result.Height r - Result.Height r div 40
        else shrank r)"
    by (simp add: Resize_eq Let_def selects_lanczos_def)
  from call exact err flag show ?thesis by (intro conjI)
qed

text \<open>
  Claim C9. \<open>Crop(w,h)\<close> changes only \<open>Width\<close> and \<open>Height\<close>, and only when its call of the
  engine succeeds: \<open>shrank\<close>, \<open>Orientation\<close> and \<open>img\<close> are as before in every case. When the
  call of the engine fails, \<open>Crop\<close> and \<open>Resize\<close> return that error and leave the whole
  struct, with \<open>Width\<close>, \<open>Height\<close> and \<open>shrank\<close>, as it was.
\<close>

theorem Crop_Resize_frame:
  "fst (Crop ocrop e w h r t) =
     fails e t (CropImage_of (ocrop (Result.Orientation r) w h
        (int_quo (Result.Width r - w + 1) 2) (int_quo (Result.Height r - h + 1) 2)
        (Result.Width r) (Result.Height r)))
   \<and> fst (snd (Crop ocrop e w h r t)) =
     (if fails e t (CropImage_of (ocrop (Result.Orientation r) w h
           (int_quo (Result.Width r - w + 1) 2) (int_quo (Result.Height r - h + 1) 2)
           (Result.Width r) (Result.Height r))) = None
      then r\<lparr>Width := w, Height := h\<rparr> else r)
   \<and> shrank (fst (snd (Crop ocrop e w h r t))) = shrank r
   \<and> Result.Orientation (fst (snd (Crop ocrop e w h r t))) = Result.Orientation r
   \<and> img (fst (snd (Crop ocrop e w h r t))) = img r
   \<and> fst (Resize e w h r t) =
     fails e t (ResizeImage (fst (Dimensions (Result.Orientation r) w h))
        (snd (Dimensions (Result.Orientation r) w h))
        (if w < Result.Width r - Result.Width r div 40
            \<and> h < Result.Height r - Result.Height r div 40
         then FILTER_LANCZOS else FILTER_TRIANGLE) 1)
   \<and> fst (snd (Resize e w h r t)) =
     (if fails e t (ResizeImage (fst (Dimensions (Result.Orientation r) w h))
           (snd (Dimensions (Result.Orientation r) w h))
           (if w < Result.Width r - Result.Width r div 40
               \<and> h < Result.Height r - Result.Height r div 40
            then FILTER_LANCZOS else FILTER_TRIANGLE) 1) = None
      then r\<lparr>Width := w, Height := h,
             shrank := (w < Result.Width r - Result.Width r div 40
                        \<and> h < Result.Height r - Result.Height r div 40)\<rparr>
      else r)"
proof -
  let ?c = "CropImage_of (ocrop (Result.Orientation r) w h
        (int_quo (Result.Width r - w + 1) 2) (int_quo (Result.Height r - h + 1) 2)
        (Result.Width r) (Result.Height r))"
  have crop: "Crop ocrop e w h r t =
      (fails e t ?c, if fails e t ?c = None then r\<lparr>Width := w, Height := h\<rparr> else r, t @ [?c])"
    by (simp add: Crop_eq Let_def)
  have resize: "Resize e w h r t =
      (let c = ResizeImage (fst (Dimensions (Result.Orientation r) w h))
               (snd (Dimensions (Result.Orientation r) w h))
               (if w < Result.Width r - Result.Width r div 40
                   \<and> h < Result.Height r - Result.Height r div 40
                then FILTER_LANCZOS else FILTER_TRIANGLE) 1
       in (fails e t c,
           if fails e t c = None
           then r\<lparr>Width := w, Height := h,
                  shrank := (w < Result.Width r - Result.Width r div 40
                             \<and> h < Result.Height r - Result.Height r div 40)\<rparr>
           else r,
           t @ [c]))"
    by (simp only: Resize_eq selects_lanczos_def)
  show ?thesis
    unfolding crop resize by (simp add: Let_def)
qed

text \<open>
  Claim C3, as the spec states it, fails: \<open>shrank\<close> is not sticky. The photograph of 4000 by
  3000 pixels is decoded at 1000 by 750, so \<open>NewResult\<close> sets \<open>shrank\<close>; the following
  \<open>Resize(1000, 750)\<close> succeeds, selects the triangle filter and writes \<open>false\<close>.
\<close>

theorem shrank_reset_by_Resize:
  "fst (NewResult ''sRGB'' plain_engine photo 1000 750) = Inr decoded_photo
   \<and> shrank decoded_photo
   \<and> fst (run upright_crop plain_engine [DoResize 1000 750] decoded_photo []) = None
   \<and> \<not> shrank (fst (snd (run upright_crop plain_engine [DoResize 1000 750] decoded_photo [])))"
  by (simp add: NewResult_def applyColorProfile_def invoke_def Resize_eq Let_def
      selects_lanczos_def example_defs)

text \<open>
  A run of several operations followed by more of them; and the flag \<open>shrank\<close>, once true,
  through a run in which every \<open>Resize\<close> that succeeds selects the Lanczos filter.
\<close>

lemma run_append:
  "run ocrop e (ops @ ops') r t =
     (case run ocrop e ops r t of
        (Some err, r', t') \<Rightarrow> (Some err, r', t')
      | (None, r', t') \<Rightarrow> run ocrop e ops' r' t')"
  by (induction ops arbitrary: r t) (auto split: prod.splits option.splits)

lemma shrank_kept:
  "shrank r \<Longrightarrow> resizes_all_shrink ocrop e ops r t \<Longrightarrow> shrank (fst (snd (run ocrop e ops r t)))"
proof (induction ops arbitrary: r t)
  case Nil
  then show ?case by simp
next
  case (Cons op ops)
  obtain err r' t' where step: "apply_operation ocrop e op r t = (err, r', t')"
    by (cases "apply_operation ocrop e op r t")
  show ?case
  proof (cases err)
    case None
    with step Cons.prems have "shrank r'"
      using apply_operation_shrank [of ocrop e op r t r' t'] by (cases op) auto
    moreover from step None Cons.prems have "resizes_all_shrink ocrop e ops r' t'" by simp
    ultimately have "shrank (fst (snd (run ocrop e ops r' t')))" by (rule Cons.IH)
    with step None show ?thesis by simp
  next
    case (Some er)
    with step have "r' = r" using apply_operation_failed by blast
    with step Some Cons.prems show ?thesis by simp
  qed
qed

text \<open>
  Claim C6, as the spec states it, fails for an odd margin. Cropping the 100 pixels wide
  \<open>banner\<close> to 97 leaves a margin of 3; the offset is 2, so two pixels go on the left and
  one on the right: the extra pixel is taken from the leading side, not the trailing one.
\<close>

theorem Crop_odd_margin_leading:
  "snd (snd (Crop upright_crop plain_engine 97 50 banner [])) = [CropImage 97 50 2 0]
   \<and> unat (Result.Width banner) - unat (97 :: uint) = 3
   \<and> \<not> sint (2 :: gint) < 3 - sint (2 :: gint)"
  by (simp add: Crop_eq Let_def CropImage_of_def int_quo_def signed_divide_int_def example_defs)

text \<open>
  Claim C6, amended. For a target inside the working dimensions (all below \<open>2 ^ 62\<close>),
  \<open>Crop(w,h)\<close> asks for the box at \<open>((W - w + 1) / 2, (H - h + 1) / 2)\<close>, passed through
  \<open>Orientation.Crop\<close>. The offset is what is removed on the leading side (left, top), the
  rest of the margin is removed on the trailing side: for an even margin both are equal,
  for an odd margin the trailing side loses one pixel less, so the extra pixel is removed
  from the leading side.
\<close>

theorem Crop_centering:
  assumes "unat (Result.Width r) < 2 ^ 62" and "unat (Result.Height r) < 2 ^ 62"
    and "unat w \<le> unat (Result.Width r)" and "unat h \<le> unat (Result.Height r)"
  shows "snd (snd (Crop ocrop e w h r t)) =
      t @ [CropImage_of (ocrop (Result.Orientation r) w h
             (int_quo (Result.Width r - w + 1) 2) (int_quo (Result.Height r - h + 1) 2)
             (Result.Width r) (Result.Height r))]
    \<and> sint (int_quo (Result.Width r - w + 1) 2) = int ((unat (Result.Width r) - unat w + 1) div 2)
    \<and> sint (int_quo (Result.Height r - h + 1) 2) = int ((unat (Result.Height r) - unat h + 1) div 2)
    \<and> (unat (Result.Width r) - unat w) - (unat (Result.Width r) - unat w + 1) div 2
        = (if even (unat (Result.Width r) - unat w)
           then (unat (Result.Width r) - unat w + 1) div 2
           else (unat (Result.Width r) - unat w + 1) div 2 - 1)
    \<and> (unat (Result.Height r) - unat h) - (unat (Result.Height r) - unat h + 1) div 2
        = (if even (unat (Result.Height r) - unat h)
           then (unat (Result.Height r) - unat h + 1) div 2
           else (unat (Result.Height r) - unat h + 1) div 2 - 1)"
  by (intro conjI Crop_trace crop_offset_inside [OF assms(1,3)] crop_offset_inside [OF assms(2,4)]
      half_margin)

theorem Crop_centering_witness:
  "unat (Result.Width banner) < 2 ^ 62 \<and> unat (Result.Height banner) < 2 ^ 62
   \<and> unat (97 :: uint) \<le> unat (Result.Width banner)
   \<and> unat (40 :: uint) \<le> unat (Result.Height banner)
   \<and> sint (int_quo (Result.Width banner - 97 + 1) 2) = 2
   \<and> sint (int_quo (Result.Height banner - 40 + 1) 2) = 5"
proof -
  have a: "unat (Result.Width banner) < 2 ^ 62" and b: "unat (Result.Height banner) < 2 ^ 62"
    and c: "unat (97 :: uint) \<le> unat (Result.Width banner)"
    and d: "unat (40 :: uint) \<le> unat (Result.Height banner)"
    by (simp_all add: example_defs)
  show ?thesis
    using a b c d Crop_centering [OF a b c d, of upright_crop plain_engine "[]"]
    by (simp add: example_defs)
qed

text \<open>
  Claim C10, as stated, fails: an oversized target does not always give a negative offset.
  Go's division truncates towards zero, so a target that exceeds the working dimension by
  1 or by 2 gives the offset 0.
\<close>

theorem Crop_excess_one_offset_zero:
  "snd (snd (Crop upright_crop plain_engine 101 50 banner [])) = [CropImage 101 50 0 0]
   \<and> snd (snd (Crop upright_crop plain_engine 102 50 banner [])) = [CropImage 102 50 0 0]
   \<and> unat (Result.Width banner) < unat (101 :: uint)
   \<and> \<not> sint (0 :: gint) < 0"
  by (simp add: Crop_eq Let_def CropImage_of_def int_quo_def signed_divide_int_def example_defs)

text \<open>
  Claim C10, amended. \<open>Crop\<close> rejects nothing: whatever the target, it computes the
  offsets, passes them unclamped through \<open>Orientation.Crop\<close> to the engine's crop, and
  fails only if the engine does. For a target wider (taller) than the working dimension
  (all below \<open>2 ^ 62\<close>) the offset is zero or negative, and negative exactly when the target
  exceeds the working dimension by 3 or more.
\<close>

theorem Crop_oversized_passed_on:
  assumes "unat (Result.Width r) < 2 ^ 62" and "unat (Result.Height r) < 2 ^ 62"
    and "unat w < 2 ^ 62" and "unat h < 2 ^ 62"
  shows "fst (Crop ocrop e w h r t) =
      fails e t (CropImage_of (ocrop (Result.Orientation r) w h
             (int_quo (Result.Width r - w + 1) 2) (int_quo (Result.Height r - h + 1) 2)
             (Result.Width r) (Result.Height r)))
    \<and> snd (snd (Crop ocrop e w h r t)) =
      t @ [CropImage_of (ocrop (Result.Orientation r) w h
             (int_quo (Result.Width r - w + 1) 2) (int_quo (Result.Height r - h + 1) 2)
             (Result.Width r) (Result.Height r))]
    \<and> (unat (Result.Width r) < unat w \<longrightarrow>
          sint (int_quo (Result.Width r - w + 1) 2) \<le> 0
          \<and> (sint (int_quo (Result.Width r - w + 1) 2) < 0
               \<longleftrightarrow> unat (Result.Width r) + 3 \<le> unat w))
    \<and> (unat (Result.Height r) < unat h \<longrightarrow>
          sint (int_quo (Result.Height r - h + 1) 2) \<le> 0
          \<and> (sint (int_quo (Result.Height r - h + 1) 2) < 0
               \<longleftrightarrow> unat (Result.Height r) + 3 \<le> unat h))"
proof -
  have neg: "unat W < unat v \<longrightarrow> sint (int_quo (W - v + 1) 2) \<le> 0
      \<and> (sint (int_quo (W - v + 1) 2) < 0 \<longleftrightarrow> unat W + 3 \<le> unat v)"
    if "unat W < 2 ^ 62" "unat v < 2 ^ 62" for W v :: "64 word"
  proof
    assume less: "unat W < unat v"
    show "sint (int_quo (W - v + 1) 2) \<le> 0
      \<and> (sint (int_quo (W - v + 1) 2) < 0 \<longleftrightarrow> unat W + 3 \<le> unat v)"
      unfolding crop_offset_outside [OF that less] using less by auto
  qed
  show ?thesis
    by (intro conjI Crop_error Crop_trace neg [OF assms(1,3)] neg [OF assms(2,4)])
qed

theorem Crop_oversized_witness:
  "unat (Result.Width banner) < 2 ^ 62 \<and> unat (Result.Height banner) < 2 ^ 62
   \<and> unat (103 :: uint) < 2 ^ 62 \<and> unat (51 :: uint) < 2 ^ 62
   \<and> unat (Result.Width banner) < unat (103 :: uint)
   \<and> unat (Result.Height banner) < unat (51 :: uint)
   \<and> fst (Crop upright_crop plain_engine 103 51 banner []) = None
   \<and> sint (int_quo (Result.Width banner - 103 + 1) 2) < 0
   \<and> \<not> sint (int_quo (Result.Height banner - 51 + 1) 2) < 0"
proof -
  have a: "unat (Result.Width banner) < 2 ^ 62" and b: "unat (Result.Height banner) < 2 ^ 62"
    and c: "unat (103 :: uint) < 2 ^ 62" and d: "unat (51 :: uint) < 2 ^ 62"
    by (simp_all add: example_defs)
  show ?thesis
    using a b c d Crop_oversized_passed_on [OF a b c d, of upright_crop plain_engine "[]"]
    by (simp add: example_defs)
qed

section \<open>\<open>NewResult\<close>\<close>

lemma NewResult_unfold:
  "NewResult srgb e im width0 height0 =
    (let result = \<lparr>img = im, Width = 0, Height = 0,
                   Orientation = Imager.Orientation im, shrank = False\<rparr>;
         t = [NewMagickWand];
         (width, height) = Dimensions (Result.Orientation result) width0 height0
     in
     case (if width > 0 \<and> height > 0 then invoke e (SetOption ''jpeg:size'' width height) t
           else (None, t)) of
       (Some err, t) \<Rightarrow> (Inl err, snd (Close result t))
     | (None, t) \<Rightarrow>
     (case invoke e (ReadImageBlob (blob im)) t of
       (Some err, t) \<Rightarrow> (Inl err, snd (Close result t))
     | (None, t) \<Rightarrow>
     (case invoke e (ResetImagePage []) (t @ [ResetIterator]) of
       (Some err, t) \<Rightarrow> (Inl err, snd (Close result t))
     | (None, t) \<Rightarrow> NewResult_after_decode srgb e im result width height t)))"
  by (simp only: NewResult_def NewResult_after_decode_def NewResult_after_color_def)

lemma measured_fields [simp]:
  "Result.Width (measured e im result) =
     fst (Dimensions (Result.Orientation result) (image_width e) (image_height e))"
  "Result.Height (measured e im result) =
     snd (Dimensions (Result.Orientation result) (image_width e) (image_height e))"
  "shrank (measured e im result) \<longleftrightarrow> shrank result
     \<or> (fst (Dimensions (Result.Orientation result) (image_width e) (image_height e))
          < Imager.Width im
        \<and> snd (Dimensions (Result.Orientation result) (image_width e) (image_height e))
          < Imager.Height im)"
  "img (measured e im result) = img result"
  "Result.Orientation (measured e im result) = Result.Orientation result"
  by (auto simp add: measured_def)

text \<open>From line 70: the blur is the only call that can fail, and its failure is returned as it is.\<close>

lemma after_color_eq:
  "NewResult_after_color e im result width height t =
    (if blur_gate im width height
     then (case fails e (t @ [GetImageWidth, GetImageHeight]) (blur_call e im result width) of
             Some err \<Rightarrow> (Inl err, t @ [GetImageWidth, GetImageHeight, blur_call e im result width])
           | None \<Rightarrow> (Inr (measured e im result),
                t @ [GetImageWidth, GetImageHeight, blur_call e im result width]))
     else (Inr (measured e im result), t @ [GetImageWidth, GetImageHeight]))"
  by (simp add: NewResult_after_color_def blur_gate_def blur_call_def measured_def invoke_def Let_def
      case_prod_beta split: option.split)

lemma is_blur_blur_call [simp]: "is_blur (blur_call e im result width)"
  by (simp add: blur_call_def)

lemma blur_call_not_color [simp]: "\<not> is_color_operation (blur_call e im result width)"
  by (simp add: blur_call_def)

lemma blur_call_neq [simp]:
  "blur_call e im result width \<noteq> Destroy"
  "blur_call e im result width \<noteq> SetColorspace c"
  "blur_call e im result width \<noteq> GetImageProfile n"
  "Destroy \<noteq> blur_call e im result width"
  "SetColorspace c \<noteq> blur_call e im result width"
  "GetImageProfile n \<noteq> blur_call e im result width"
  by (simp_all add: blur_call_def)

lemmas after_decode_defs =
  NewResult_after_decode_def after_color_eq applyColorProfile_def invoke_def Close_def Let_def

lemma after_decode_blur:
  assumes "NewResult_after_decode srgb e im result width height t = (Inr r, t')"
  shows "filter is_blur t' = filter is_blur t @
     (if blur_gate im width height then [blur_call e im result width] else [])
     \<and> r = measured e im result"
  using assms
  by (auto simp add: after_decode_defs split: option.splits if_splits)

lemma after_decode_color_fails:
  assumes "NewResult_after_decode srgb e im result width height t = (res, t')"
  shows "filter is_color_operation t' = filter is_color_operation t @
    (if icc_profile e = [] then
       (if image_colorspace e = COLORSPACE_SRGB then []
        else [TransformImageColorspace COLORSPACE_SRGB])
     else if icc_profile e = srgb then [SetColorspace COLORSPACE_SRGB]
     else if fails e (t @ [GetImageProfile ''icc'']) (ProfileImage ''icc'' srgb) = None
     then [ProfileImage ''icc'' srgb, SetColorspace COLORSPACE_SRGB]
     else if image_colorspace e = COLORSPACE_SRGB then [ProfileImage ''icc'' srgb]
     else [ProfileImage ''icc'' srgb, TransformImageColorspace COLORSPACE_SRGB])
    \<and> take (Suc (length t)) t' = t @ [GetImageProfile ''icc'']"
  using assms
  by (auto simp add: after_decode_defs split: option.splits if_splits)

lemma calls_before_color_plain [simp]:
  "filter is_color_operation (calls_before_color im width height) = []"
  by (simp add: calls_before_color_def)

lemma after_decode_destroy:
  assumes "NewResult_after_decode srgb e im result width height t = (res, t')"
  shows "count_list t' Destroy = count_list t Destroy +
    (case res of Inr r \<Rightarrow> 0 | Inl err \<Rightarrow> if is_blur (last t') then 0 else 1)"
  using assms
  by (auto simp add: after_decode_defs split: option.splits if_splits)

lemmas NewResult_top_defs = NewResult_unfold Let_def case_prod_beta invoke_def Close_def

text \<open>
  What \<open>NewResult\<close> releases: the wand is destroyed once on every error return but the one
  of the blur, and not at all when a \<open>Result\<close> is returned (the caller closes it).
\<close>

lemma NewResult_releases:
  assumes "NewResult srgb e im w0 h0 = (res, t)"
  shows "count_list t Destroy =
    (case res of Inr r \<Rightarrow> 0 | Inl err \<Rightarrow> if is_blur (last t) then 0 else 1)"
  using assms
  by (auto simp add: NewResult_top_defs split: option.splits if_splits
      dest!: after_decode_destroy)

text \<open>What a successful \<open>NewResult\<close> returns: the decoded dimensions, and \<open>shrank\<close> if both are
  below the source's.\<close>

lemma NewResult_Inr:
  assumes "NewResult srgb e im w0 h0 = (Inr r, t)"
  shows "r = measured e im
     \<lparr>img = im, Width = 0, Height = 0, Orientation = Imager.Orientation im, shrank = False\<rparr>"
  using assms
  by (auto simp add: NewResult_top_defs split: option.splits if_splits
      dest!: after_decode_blur)

text \<open>
  Claim C1: the engine's resources are released exactly once on every path, and every
  error return of \<open>NewResult\<close> releases the wand. The code breaks it: when the blur of line
  81 fails, \<open>NewResult\<close> returns the error without \<open>Close\<close> (line 82), unlike its five other
  error returns, and the caller gets no \<open>Result\<close> to close. Evaluated on an engine whose
  blur fails: the error is returned and the wand has not been destroyed.
\<close>

theorem NewResult_blur_failure_keeps_wand:
  "NewResult ''sRGB'' blur_failing_engine photo 1000 750 =
     (Inl (MagickError ''blur''),
      [NewMagickWand, SetOption ''jpeg:size'' 1000 750, ReadImageBlob ''photo'', ResetIterator,
       ResetImagePage [], GetImageProfile ''icc'', GetImageColorspace, GetImageWidth,
       GetImageHeight, GaussianBlurImage 0 1])
   \<and> count_list (snd (NewResult ''sRGB'' blur_failing_engine photo 1000 750)) Destroy = 0"
  by (simp add: NewResult_def applyColorProfile_def invoke_def Close_def example_defs)

text \<open>
  Claim C5, as the spec states it, fails: the blur does not depend on the working
  dimensions. The photograph of 4000 by 3000 pixels is decoded at exactly the hinted 1000
  by 750, so the hint is not smaller than the working dimensions; the blur is applied all
  the same.
\<close>

theorem blur_despite_equal_working_size:
  "fst (NewResult ''sRGB'' plain_engine photo 1000 750) = Inr decoded_photo
   \<and> Result.Width decoded_photo = 1000 \<and> Result.Height decoded_photo = 750
   \<and> filter is_blur (snd (NewResult ''sRGB'' plain_engine photo 1000 750))
       = [GaussianBlurImage 0 1]"
  by (simp add: NewResult_def applyColorProfile_def invoke_def Close_def example_defs)

text \<open>
  Claim C5, amended. When \<open>NewResult\<close> returns a \<open>Result\<close>, it has applied the blur, once, if
  and only if the blur factor is positive and the hinted dimensions, swapped as the
  orientation requires, are non-zero and smaller in both axes than the dimensions
  \<open>img.Width\<close> and \<open>img.Height\<close> of the source. The blur's second argument is the blur factor
  times the working width divided by the (orientation-adjusted) hinted width.
\<close>

theorem NewResult_blur_gate:
  assumes "NewResult srgb e im w0 h0 = (Inr r, t)"
  shows "filter is_blur t =
    (if BlurFactor im > 0
        \<and> 0 < fst (Dimensions (Imager.Orientation im) w0 h0)
        \<and> fst (Dimensions (Imager.Orientation im) w0 h0) < Imager.Width im
        \<and> 0 < snd (Dimensions (Imager.Orientation im) w0 h0)
        \<and> snd (Dimensions (Imager.Orientation im) w0 h0) < Imager.Height im
     then [GaussianBlurImage 0
            (BlurFactor im * (real (unat (Result.Width r))
               / real (unat (fst (Dimensions (Imager.Orientation im) w0 h0)))))]
     else [])"
  using assms
  by (auto simp add: NewResult_top_defs blur_gate_def blur_call_def split: option.splits if_splits
      dest!: after_decode_blur)

theorem NewResult_blur_gate_witness:
  "NewResult ''sRGB'' plain_engine photo 500 375 =
     (Inr decoded_photo,
      [NewMagickWand, SetOption ''jpeg:size'' 500 375, ReadImageBlob ''photo'', ResetIterator,
       ResetImagePage [], GetImageProfile ''icc'', GetImageColorspace, GetImageWidth,
       GetImageHeight, GaussianBlurImage 0 2])
   \<and> filter is_blur
       [NewMagickWand, SetOption ''jpeg:size'' 500 375, ReadImageBlob ''photo'', ResetIterator,
        ResetImagePage [], GetImageProfile ''icc'', GetImageColorspace, GetImageWidth,
        GetImageHeight, GaussianBlurImage 0 2]
     = [GaussianBlurImage 0 2]"
proof -
  have a: "NewResult ''sRGB'' plain_engine photo 500 375 =
     (Inr decoded_photo,
      [NewMagickWand, SetOption ''jpeg:size'' 500 375, ReadImageBlob ''photo'', ResetIterator,
       ResetImagePage [], GetImageProfile ''icc'', GetImageColorspace, GetImageWidth,
       GetImageHeight, GaussianBlurImage 0 2])"
    by (simp add: NewResult_def applyColorProfile_def invoke_def Close_def example_defs)
  show ?thesis using a NewResult_blur_gate [OF a] by simp
qed

text \<open>
  Claim C8, as the spec states it, fails: it is not always exactly one path. For an image
  without a colour profile that is already in sRGB, \<open>NewResult\<close> reads the profile and the
  colour space and performs no colour operation at all.
\<close>

theorem no_color_operation_for_plain_sRGB:
  "GetImageProfile ''icc'' \<in> set (snd (NewResult ''sRGB'' plain_engine photo 1000 750))
   \<and> icc_profile plain_engine = [] \<and> image_colorspace plain_engine = COLORSPACE_SRGB
   \<and> filter is_color_operation (snd (NewResult ''sRGB'' plain_engine photo 1000 750)) = []"
  by (simp add: NewResult_def applyColorProfile_def invoke_def Close_def example_defs)

text \<open>
  Claim C8, amended. Once \<open>NewResult\<close> has decoded the image and read its profile, the colour
  operations it performs are: (1) for a profile equal to the reference profile, only the
  marking as sRGB; (2) for a different profile, the application of the reference profile,
  followed by the marking as sRGB when the engine applies it without error and by the
  steps of (3) when the engine returns an error; (3) without a profile, the direct
  transformation if the colour space is not sRGB, and nothing if it is. So zero, one or
  two colour operations are performed. The engine is asked in the state in which the
  calls up to the reading of the profile have left the wand.
\<close>

theorem NewResult_color_paths:
  assumes "NewResult srgb e im w0 h0 = (res, t)" and "GetImageProfile ''icc'' \<in> set t"
  shows "take (Suc (length (calls_before_color im (fst (Dimensions (Imager.Orientation im) w0 h0))
             (snd (Dimensions (Imager.Orientation im) w0 h0))))) t
      = calls_before_color im (fst (Dimensions (Imager.Orientation im) w0 h0))
          (snd (Dimensions (Imager.Orientation im) w0 h0)) @ [GetImageProfile ''icc'']
   \<and> filter is_color_operation t =
    (if icc_profile e = [] then
       (if image_colorspace e = COLORSPACE_SRGB then []
        else [TransformImageColorspace COLORSPACE_SRGB])
     else if icc_profile e = srgb then [SetColorspace COLORSPACE_SRGB]
     else if fails e
          (calls_before_color im (fst (Dimensions (Imager.Orientation im) w0 h0))
             (snd (Dimensions (Imager.Orientation im) w0 h0)) @ [GetImageProfile ''icc''])
          (ProfileImage ''icc'' srgb) = None
     then [ProfileImage ''icc'' srgb, SetColorspace COLORSPACE_SRGB]
     else if image_colorspace e = COLORSPACE_SRGB then [ProfileImage ''icc'' srgb]
     else [ProfileImage ''icc'' srgb, TransformImageColorspace COLORSPACE_SRGB])"
proof -
  let ?w = "fst (Dimensions (Imager.Orientation im) w0 h0)"
  let ?h = "snd (Dimensions (Imager.Orientation im) w0 h0)"
  let ?r0 = "\<lparr>img = im, Width = 0, Height = 0, Orientation = Imager.Orientation im,
    shrank = False\<rparr>"
  from assms have
    t0: "NewResult_after_decode srgb e im ?r0 ?w ?h (calls_before_color im ?w ?h) = (res, t)"
    by (auto simp add: NewResult_top_defs calls_before_color_def split: option.splits if_splits)
  from after_decode_color_fails [OF t0] show ?thesis by simp
qed

theorem NewResult_color_paths_witness:
  "GetImageProfile ''icc'' \<in> set (snd (NewResult ''sRGB'' profiled_engine photo 1000 750))
   \<and> filter is_color_operation (snd (NewResult ''sRGB'' profiled_engine photo 1000 750))
       = [ProfileImage ''icc'' ''sRGB'', SetColorspace COLORSPACE_SRGB]
   \<and> GetImageProfile ''icc'' \<in> set (snd (NewResult ''sRGB'' profile_failing_engine photo 1000 750))
   \<and> filter is_color_operation (snd (NewResult ''sRGB'' profile_failing_engine photo 1000 750))
       = [ProfileImage ''icc'' ''sRGB'', TransformImageColorspace COLORSPACE_SRGB]"
proof -
  have a: "NewResult ''sRGB'' profiled_engine photo 1000 750 =
      (fst (NewResult ''sRGB'' profiled_engine photo 1000 750),
       snd (NewResult ''sRGB'' profiled_engine photo 1000 750))"
    and b: "NewResult ''sRGB'' profile_failing_engine photo 1000 750 =
      (fst (NewResult ''sRGB'' profile_failing_engine photo 1000 750),
       snd (NewResult ''sRGB'' profile_failing_engine photo 1000 750))"
    by simp_all
  have c: "GetImageProfile ''icc'' \<in> set (snd (NewResult ''sRGB'' profiled_engine photo 1000 750))"
    and d: "GetImageProfile ''icc''
      \<in> set (snd (NewResult ''sRGB'' profile_failing_engine photo 1000 750))"
    by (simp_all add: NewResult_def applyColorProfile_def invoke_def Close_def example_defs)
  show ?thesis
    using c d NewResult_color_paths [OF a c] NewResult_color_paths [OF b d]
    by (simp add: example_defs calls_before_color_def)
qed

text \<open>
  Claim C3, amended. The flag \<open>shrank\<close> is not sticky; it is written as follows. \<open>NewResult\<close>
  returns it true exactly when both decoded dimensions are below the source's. \<open>Crop\<close>
  never changes it. \<open>Resize\<close> overwrites it, when its call of the engine succeeds, with
  whether it selected the Lanczos filter, and keeps it when the call fails. Hence, once
  true, it stays true through the following operations as long as every \<open>Resize\<close> that
  succeeds among them selects the Lanczos filter; and a \<open>Resize\<close> after any completed run
  is that \<open>Resize\<close> on the state the run has left, so that a later successful \<open>Resize\<close> with
  the triangle filter resets the flag to false.
\<close>

theorem shrank_written_by_Resize:
  "(NewResult srgb e im w0 h0 = (Inr r0, t0) \<longrightarrow>
      shrank r0 =
        (fst (Dimensions (Imager.Orientation im) (image_width e) (image_height e)) < Imager.Width im
         \<and> snd (Dimensions (Imager.Orientation im) (image_width e) (image_height e))
             < Imager.Height im))
   \<and> shrank (fst (snd (Crop ocrop e w h r t))) = shrank r
   \<and> shrank (fst (snd (Resize e w h r t))) =
       (if fails e t (ResizeImage (fst (Dimensions (Result.Orientation r) w h))
            (snd (Dimensions (Result.Orientation r) w h))
            (if w < Result.Width r - Result.Width r div 40
                \<and> h < Result.Height r - Result.Height r div 40
             then FILTER_LANCZOS else FILTER_TRIANGLE) 1) = None
        then w < Result.Width r - Result.Width r div 40
             \<and> h < Result.Height r - Result.Height r div 40
        else shrank r)
   \<and> (shrank r \<and> resizes_all_shrink ocrop e ops r t \<longrightarrow>
        shrank (fst (snd (run ocrop e ops r t))))
   \<and> (fst (run ocrop e ops r t) = None \<longrightarrow>
        run ocrop e (ops @ [DoResize w h]) r t =
          Resize e w h (fst (snd (run ocrop e ops r t))) (snd (snd (run ocrop e ops r t))))"
proof (intro conjI impI)
  assume "NewResult srgb e im w0 h0 = (Inr r0, t0)"
  then have "r0 = measured e im
     \<lparr>img = im, Width = 0, Height = 0, Orientation = Imager.Orientation im, shrank = False\<rparr>"
    by (rule NewResult_Inr)
  then show "shrank r0 =
        (fst (Dimensions (Imager.Orientation im) (image_width e) (image_height e)) < Imager.Width im
         \<and> snd (Dimensions (Imager.Orientation im) (image_width e) (image_height e))
             < Imager.Height im)"
    by simp
next
  show "shrank (fst (snd (Crop ocrop e w h r t))) = shrank r"
    by (simp add: Crop_eq Let_def)
next
  show "shrank (fst (snd (Resize e w h r t))) =
       (if fails e t (ResizeImage (fst (Dimensions (Result.Orientation r) w h))
            (snd (Dimensions (Result.Orientation r) w h))
            (if w < Result.Width r - Result.Width r div 40
                \<and> h < Result.Height r - Result.Height r div 40
             then FILTER_LANCZOS else FILTER_TRIANGLE) 1) = None
        then w < Result.Width r - Result.Width r div 40
             \<and> h < Result.Height r - Result.Height r div 40
        else shrank r)"
    by (simp add: Resize_eq Let_def selects_lanczos_def)
next
  assume "shrank r \<and> resizes_all_shrink ocrop e ops r t"
  then show "shrank (fst (snd (run ocrop e ops r t)))"
    using shrank_kept by blast
next
  assume completed: "fst (run ocrop e ops r t) = None"
  obtain err r' t' where run: "run ocrop e ops r t = (err, r', t')"
    by (cases "run ocrop e ops r t")
  with completed have "err = None" by simp
  with run show "run ocrop e (ops @ [DoResize w h]) r t =
          Resize e w h (fst (snd (run ocrop e ops r t))) (snd (snd (run ocrop e ops r t)))"
    by (simp add: run_append split: prod.splits option.splits)
qed

theorem shrank_written_witness:
  "NewResult ''sRGB'' plain_engine photo 1000 750 =
     (Inr decoded_photo,
      [NewMagickWand, SetOption ''jpeg:size'' 1000 750, ReadImageBlob ''photo'', ResetIterator,
       ResetImagePage [], GetImageProfile ''icc'', GetImageColorspace, GetImageWidth,
       GetImageHeight, GaussianBlurImage 0 1])
   \<and> shrank decoded_photo
   \<and> resizes_all_shrink upright_crop plain_engine [DoCrop 800 600, DoResize 400 300]
       decoded_photo []
   \<and> shrank (fst (snd (run upright_crop plain_engine [DoCrop 800 600, DoResize 400 300]
       decoded_photo [])))
   \<and> fst (run upright_crop plain_engine [DoCrop 800 600] decoded_photo []) = None
   \<and> \<not> shrank (fst (snd (run upright_crop plain_engine ([DoCrop 800 600] @ [DoResize 800 600])
       decoded_photo [])))"
proof -
  have a: "NewResult ''sRGB'' plain_engine photo 1000 750 =
     (Inr decoded_photo,
      [NewMagickWand, SetOption ''jpeg:size'' 1000 750, ReadImageBlob ''photo'', ResetIterator,
       ResetImagePage [], GetImageProfile ''icc'', GetImageColorspace, GetImageWidth,
       GetImageHeight, GaussianBlurImage 0 1])"
    by (simp add: NewResult_def applyColorProfile_def invoke_def Close_def example_defs)
  have b: "shrank decoded_photo" by (simp add: example_defs)
  have c: "resizes_all_shrink upright_crop plain_engine [DoCrop 800 600, DoResize 400 300]
      decoded_photo []"
    by (simp add: Resize_eq Crop_eq Let_def selects_lanczos_def example_defs CropImage_of_def)
  have d: "fst (run upright_crop plain_engine [DoCrop 800 600] decoded_photo []) = None"
    by (simp add: Crop_eq Let_def example_defs CropImage_of_def)
  have e: "\<not> shrank (fst (snd (Resize plain_engine 800 600
      (fst (snd (run upright_crop plain_engine [DoCrop 800 600] decoded_photo [])))
      (snd (snd (run upright_crop plain_engine [DoCrop 800 600] decoded_photo []))))))"
    by (simp add: Resize_eq Crop_eq Let_def selects_lanczos_def example_defs CropImage_of_def)
  show ?thesis
    using a b c d e
      shrank_written_by_Resize [of "''sRGB''" plain_engine photo 1000 750 decoded_photo
        "[NewMagickWand, SetOption ''jpeg:size'' 1000 750, ReadImageBlob ''photo'', ResetIterator,
          ResetImagePage [], GetImageProfile ''icc'', GetImageColorspace, GetImageWidth,
          GetImageHeight, GaussianBlurImage 0 1]"
        upright_crop 800 600 decoded_photo "[]" "[DoCrop 800 600, DoResize 400 300]"]
      shrank_written_by_Resize [of "''sRGB''" plain_engine photo 1000 750 decoded_photo
        "[NewMagickWand, SetOption ''jpeg:size'' 1000 750, ReadImageBlob ''photo'', ResetIterator,
          ResetImagePage [], GetImageProfile ''icc'', GetImageColorspace, GetImageWidth,
          GetImageHeight, GaussianBlurImage 0 1]"
        upright_crop 800 600 decoded_photo "[]" "[DoCrop 800 600]"]
    by simp
qed

section \<open>\<open>Get\<close>\<close>

lemma compress_keeps_wand:
  "compress e f q i t = (res, t') \<Longrightarrow> count_list t' Destroy = count_list t Destroy"
  by (auto simp add: compress_def invoke_def split: option.splits)

text \<open>
  \<open>Get\<close> destroys the wand on one path only, the failure of \<open>StripImage\<close> (line 171), where
  it also zeroes the struct. On its other error returns and on success the wand stays
  open and the struct is unchanged: the release is left to the caller.
\<close>

lemma Get_releases:
  assumes "Get e r t = (res, r', t')"
  shows "count_list t' Destroy = count_list t Destroy + (if r' = None then 1 else 0)"
    and "r' = None \<longrightarrow> last t' = Destroy \<and> (\<exists>err. res = Inl err)"
    and "r' \<noteq> None \<longrightarrow> r' = Some r"
  using assms
  by (auto simp add: Get_def invoke_def Close_def Let_def
      split: option.splits if_splits prod.splits dest!: compress_keeps_wand)

section \<open>The plan parser and the test file\<close>

text \<open>The parser model gives every request of the test file the outcome that the test asserts.\<close>

lemma parser_meets_tests:
  "list_all (\<lambda>request. parse_plan (plan_suffix request) = Inl BadRequest) TestParameterValidation
   \<and> map (\<lambda>request. parse_plan (plan_suffix request)) (TestSuccess @ TestResponseErrors) =
       [Inr [OpScale 2048 2048], Inr [OpCrop 200 100], Inr [OpPreviewScale 100 100],
        Inr [OpScale 16 16], Inr [OpScale 16 16], Inr [OpScale 16 16], Inr [OpScale 16 16],
        Inr [OpScale 16 16]]"
  by code_simp

lemma split_on_absent: "c \<notin> set s \<Longrightarrow> split_on c s = [s]"
  by (induction s) auto

lemma segments_single:
  assumes "CHR ''='' \<notin> set s" and "s \<noteq> []"
  shows "segments (CHR ''='' # s) = [s]"
  using assms by (simp add: segments_def split_on_absent)

lemma digit_not_eq: "is_digit c \<Longrightarrow> c \<noteq> CHR ''='' \<and> c \<noteq> CHR ''x''"
  by (auto simp add: is_digit_def)

lemma parse_decimal_digits: "parse_decimal s = Some n \<Longrightarrow> s \<noteq> [] \<and> list_all is_digit s"
  by (simp add: parse_decimal_def split: if_splits)

lemma takeWhile_digits:
  assumes "list_all is_digit ws"
  shows "takeWhile is_digit (ws @ CHR ''x'' # hs) = ws"
    and "dropWhile is_digit (ws @ CHR ''x'' # hs) = CHR ''x'' # hs"
proof -
  have x: "\<not> is_digit CHR ''x''" by (simp add: is_digit_def)
  from assms have all: "\<forall>c\<in>set ws. is_digit c" by (simp add: list_all_iff)
  show "takeWhile is_digit (ws @ CHR ''x'' # hs) = ws"
    using all x by (simp add: takeWhile_append2)
  show "dropWhile is_digit (ws @ CHR ''x'' # hs) = CHR ''x'' # hs"
    using all x by (simp add: dropWhile_append2)
qed

lemma parse_dimensions_ok:
  assumes "parse_decimal ws = Some w" and "parse_decimal hs = Some h"
  shows "parse_dimensions (ws @ CHR ''x'' # hs) = Some (w, h)"
  using assms parse_decimal_digits [OF assms(1)]
  by (simp add: parse_dimensions_def takeWhile_digits)

lemma parse_segment_failure: "parse_segment s = Inl f \<Longrightarrow> f = BadRequest"
  by (auto simp add: parse_segment_def split: option.splits if_splits)

lemma parse_segments_failure: "parse_segments ss = Inl f \<Longrightarrow> f = BadRequest"
  by (induction ss arbitrary: f) (auto split: sum.splits dest: parse_segment_failure)

lemma parse_segments_rejects:
  "s \<in> set ss \<Longrightarrow> parse_segment s = Inl BadRequest \<Longrightarrow> parse_segments ss = Inl BadRequest"
  by (induction ss) (auto split: sum.splits dest: parse_segment_failure parse_segments_failure)

lemma lex_segment_sp: "lex_segment (''sp'' @ rest) = None"
  by (simp add: lex_segment_def parse_dimensions_def is_digit_def)

text \<open>
  Claim C2, as the spec states it, fails: a segment \<open>sp\<close> followed by dimensions in range is
  rejected. For \<open>sp100x100\<close>, the claim's example, and for the request
  \<open>watermelon.jpg=sp16x16\<close>, for which the test file asserts \<open>http.StatusBadRequest\<close>
  (``Require preview flag to be a prefix''), the parser answers \<open>BadRequest\<close>.
\<close>

theorem preview_suffix_rejected:
  "parse_plan ''=sp100x100'' = Inl BadRequest
   \<and> parse_plan (plan_suffix ''watermelon.jpg=sp16x16'') = Inl BadRequest
   \<and> ''watermelon.jpg=sp16x16'' \<in> set TestParameterValidation"
  by code_simp

text \<open>
  Claim C2, amended. The preview flag is a prefix: a segment \<open>ps\<close> followed by \<open>W x H\<close>,
  both decimal numbers between 16 and 2048, is accepted as the preview-scale operation
  and gives a valid plan (as \<open>ps100x100\<close> does in \<open>TestSuccess\<close>). A segment that starts with
  \<open>sp\<close> is never an operation: \<open>sp\<close> followed by the same \<open>W x H\<close> is a bad request, and so is
  every plan that contains a segment starting with \<open>sp\<close>.
\<close>

theorem preview_prefix_accepted:
  assumes "parse_decimal ws = Some w" and "parse_decimal hs = Some h"
    and "16 \<le> w" "w \<le> 2048" "16 \<le> h" "h \<le> 2048"
  shows "parse_plan (''=ps'' @ ws @ ''x'' @ hs) = Inr [OpPreviewScale w h]
    \<and> parse_plan (''=sp'' @ ws @ ''x'' @ hs) = Inl BadRequest
    \<and> (seg \<in> set (segments suffix) \<and> seg = ''sp'' @ rest \<longrightarrow> parse_plan suffix = Inl BadRequest)"
proof (intro conjI impI)
  have digits: "list_all is_digit ws" "list_all is_digit hs"
    using assms(1,2) parse_decimal_digits by blast+
  then have no_eq: "CHR ''='' \<notin> set (ws @ ''x'' @ hs)"
    by (auto simp add: list_all_iff dest: digit_not_eq)
  then have seg: "segments (''=ps'' @ ws @ ''x'' @ hs) = [''ps'' @ ws @ ''x'' @ hs]"
    using segments_single [of "''ps'' @ ws @ ''x'' @ hs"] by simp
  have "lex_segment (''ps'' @ ws @ ''x'' @ hs) = Some (OpPreviewScale w h)"
    using parse_dimensions_ok [OF assms(1,2)] by (simp add: lex_segment_def)
  then have "parse_segment (''ps'' @ ws @ ''x'' @ hs) = Inr (OpPreviewScale w h)"
    using assms(3-6) by (simp add: parse_segment_def in_range_def)
  then show "parse_plan (''=ps'' @ ws @ ''x'' @ hs) = Inr [OpPreviewScale w h]"
    unfolding parse_plan_def seg by simp
  from no_eq have "segments (''=sp'' @ ws @ ''x'' @ hs) = [''sp'' @ ws @ ''x'' @ hs]"
    using segments_single [of "''sp'' @ ws @ ''x'' @ hs"] by simp
  moreover have "parse_segment (''sp'' @ ws @ ''x'' @ hs) = Inl BadRequest"
    by (simp only: parse_segment_def lex_segment_sp option.case)
  ultimately show "parse_plan (''=sp'' @ ws @ ''x'' @ hs) = Inl BadRequest"
    by (simp add: parse_plan_def)
next
  assume a: "seg \<in> set (segments suffix) \<and> seg = ''sp'' @ rest"
  then have "parse_segment seg = Inl BadRequest"
    by (simp only: parse_segment_def lex_segment_sp option.case)
  with a have "parse_segments (segments suffix) = Inl BadRequest"
    using parse_segments_rejects by blast
  then show "parse_plan suffix = Inl BadRequest" by (simp add: parse_plan_def)
qed

theorem preview_prefix_witness:
  "parse_decimal ''100'' = Some 100
   \<and> parse_plan ''=ps100x100'' = Inr [OpPreviewScale 100 100]
   \<and> parse_plan ''=sp100x100'' = Inl BadRequest
   \<and> ''sp16x16'' \<in> set (segments ''=c20x20=sp16x16'')
   \<and> parse_plan ''=c20x20=sp16x16'' = Inl BadRequest"
proof -
  have d: "parse_decimal ''100'' = Some 100" by code_simp
  have s: "''sp16x16'' \<in> set (segments ''=c20x20=sp16x16'')" by code_simp
  show ?thesis
    using d s preview_prefix_accepted [OF d d, of "''sp16x16''" "''=c20x20=sp16x16''" "''16x16''"]
    by simp
qed

text \<open>
  Claim C7. A plan with a scale, crop or preview segment one of whose dimensions is 0,
  below 16 or above 2048 is rejected with \<open>BadRequest\<close>, whatever else the plan contains;
  and a segment whose two dimensions lie between 16 and 2048 passes the check of the
  range.
\<close>

theorem dimension_range_enforced:
  "(seg \<in> set (segments suffix) \<and> lex_segment seg = Some op
      \<and> (d = op_width op \<or> d = op_height op) \<and> (d = 0 \<or> d < 16 \<or> 2048 < d)
     \<longrightarrow> parse_plan suffix = Inl BadRequest)
   \<and> (lex_segment seg' = Some op' \<and> 16 \<le> op_width op' \<and> op_width op' \<le> 2048
        \<and> 16 \<le> op_height op' \<and> op_height op' \<le> 2048
     \<longrightarrow> parse_segment seg' = Inr op')"
proof (intro conjI impI)
  assume a: "seg \<in> set (segments suffix) \<and> lex_segment seg = Some op
      \<and> (d = op_width op \<or> d = op_height op) \<and> (d = 0 \<or> d < 16 \<or> 2048 < d)"
  then have "parse_segment seg = Inl BadRequest"
    by (auto simp add: parse_segment_def in_range_def)
  with a have "parse_segments (segments suffix) = Inl BadRequest"
    using parse_segments_rejects by blast
  then show "parse_plan suffix = Inl BadRequest" by (simp add: parse_plan_def)
next
  assume "lex_segment seg' = Some op' \<and> 16 \<le> op_width op' \<and> op_width op' \<le> 2048
        \<and> 16 \<le> op_height op' \<and> op_height op' \<le> 2048"
  then show "parse_segment seg' = Inr op'"
    by (simp add: parse_segment_def in_range_def)
qed

theorem dimension_range_witness:
  "''s2049x16'' \<in> set (segments ''=c20x20=s2049x16'')
   \<and> lex_segment ''s2049x16'' = Some (OpScale 2049 16)
   \<and> parse_plan ''=c20x20=s2049x16'' = Inl BadRequest
   \<and> lex_segment ''c16x2048'' = Some (OpCrop 16 2048)
   \<and> parse_segment ''c16x2048'' = Inr (OpCrop 16 2048)"
proof -
  have a: "''s2049x16'' \<in> set (segments ''=c20x20=s2049x16'')" by code_simp
  have b: "lex_segment ''s2049x16'' = Some (OpScale 2049 16)" by code_simp
  have c: "lex_segment ''c16x2048'' = Some (OpCrop 16 2048)" by code_simp
  show ?thesis
    using a b c
      dimension_range_enforced [of "''s2049x16''" "''=c20x20=s2049x16''" "OpScale 2049 16" 2049
        "''c16x2048''" "OpCrop 16 2048"]
    by simp
qed

end
